theory Spec2Isabelle
  imports Main "HOL-Library.Sublist"
begin

section \<open>The document state manager (src/lambda/state-manager.py)\<close>

text \<open>
  The handler is a Python function over dynamically typed JSON data. Values are modelled
  by one datatype; a dict is an association list read with \<open>map_of\<close> (the first entry
  of a key is the one a lookup sees). Numbers are integers: JSON fractions play no role in
  the handler. A string is the UTF-8 bytes of its text.
\<close>

datatype json =
    JNull
  | JBool bool
  | JInt int
  | JStr string
  | JList "json list"
  | JDict "(string \<times> json) list"

text \<open>
  Exceptions are values. Each carries the text that \<open>str(e)\<close> yields, which is what the
  top-level handler puts into the 500 response.
\<close>

datatype exn =
    AttributeError string
  | JSONDecodeError string
  | StoreError string
  | TypeError string

fun exn_text :: "exn \<Rightarrow> string" where
  "exn_text (AttributeError m) = m"
| "exn_text (JSONDecodeError m) = m"
| "exn_text (StoreError m) = m"
| "exn_text (TypeError m) = m"

fun type_name :: "json \<Rightarrow> string" where
  "type_name JNull = ''NoneType''"
| "type_name (JBool b) = ''bool''"
| "type_name (JInt i) = ''int''"
| "type_name (JStr s) = ''str''"
| "type_name (JList xs) = ''list''"
| "type_name (JDict kvs) = ''dict''"

definition quoted :: "string \<Rightarrow> string" where
  "quoted s = CHR 0x27 # s @ [CHR 0x27]"

definition no_attribute :: "json \<Rightarrow> string \<Rightarrow> exn" where
  "no_attribute v a =
     AttributeError (quoted (type_name v) @ '' object has no attribute '' @ quoted a)"

text \<open>\<open>obj.get(key, default)\<close>: only a dict has the method.\<close>

fun py_get :: "json \<Rightarrow> string \<Rightarrow> json \<Rightarrow> exn + json" where
  "py_get (JDict kvs) k d = Inr (case map_of kvs k of Some v \<Rightarrow> v | None \<Rightarrow> d)"
| "py_get v k d = Inl (no_attribute v ''get'')"

text \<open>
  Upper-casing of ASCII text: the letters a to z move to A to Z and every other byte
  stays. A text is ASCII when no byte has its top bit set.
\<close>

definition upper_char :: "char \<Rightarrow> char" where
  "upper_char c =
     (let n = (of_char c :: nat) in if 97 \<le> n \<and> n \<le> 122 then char_of (n - 32) else c)"

definition upper :: "string \<Rightarrow> string" where
  "upper s = map upper_char s"

definition ascii :: "string \<Rightarrow> bool" where
  "ascii s = list_all (\<lambda>c. \<not> digit7 c) s"

text \<open>Python truthiness, as \<open>not x\<close> tests it.\<close>

fun truthy :: "json \<Rightarrow> bool" where
  "truthy JNull = False"
| "truthy (JBool b) = b"
| "truthy (JInt i) = (i \<noteq> 0)"
| "truthy (JStr s) = (s \<noteq> [])"
| "truthy (JList xs) = (xs \<noteq> [])"
| "truthy (JDict kvs) = (kvs \<noteq> [])"

subsection \<open>Values as the table hands them back\<close>

text \<open>
  The table is reached through the resource interface of the client library, which returns
  every number as a \<open>decimal.Decimal\<close>, also inside lists and maps. Such values are
  Python values and not JSON: \<open>json.dumps\<close> raises a \<open>TypeError\<close> on a value that holds a
  \<open>Decimal\<close>. \<open>stored_form\<close> is a request value as it comes back from the table, \<open>plain\<close>
  reads a returned value as JSON.
\<close>

datatype attr =
    ANull
  | ABool bool
  | ADecimal int
  | AStr string
  | AList "attr list"
  | AMap "(string \<times> attr) list"

fun stored_form :: "json \<Rightarrow> attr" where
  "stored_form JNull = ANull"
| "stored_form (JBool b) = ABool b"
| "stored_form (JInt i) = ADecimal i"
| "stored_form (JStr s) = AStr s"
| "stored_form (JList xs) = AList (map stored_form xs)"
| "stored_form (JDict kvs) = AMap (map (\<lambda>kv. (fst kv, stored_form (snd kv))) kvs)"

fun plain :: "attr \<Rightarrow> json" where
  "plain ANull = JNull"
| "plain (ABool b) = JBool b"
| "plain (ADecimal i) = JInt i"
| "plain (AStr s) = JStr s"
| "plain (AList xs) = JList (map plain xs)"
| "plain (AMap kvs) = JDict (map (\<lambda>kv. (fst kv, plain (snd kv))) kvs)"

fun has_decimal :: "attr \<Rightarrow> bool" where
  "has_decimal ANull = False"
| "has_decimal (ABool b) = False"
| "has_decimal (ADecimal i) = True"
| "has_decimal (AStr s) = False"
| "has_decimal (AList xs) = list_ex has_decimal xs"
| "has_decimal (AMap kvs) = list_ex (\<lambda>kv. has_decimal (snd kv)) kvs"

fun has_number :: "json \<Rightarrow> bool" where
  "has_number JNull = False"
| "has_number (JBool b) = False"
| "has_number (JInt i) = True"
| "has_number (JStr s) = False"
| "has_number (JList xs) = list_ex has_number xs"
| "has_number (JDict kvs) = list_ex (\<lambda>kv. has_number (snd kv)) kvs"

text \<open>
  \<open>json.dumps\<close> of a value that came from the table. The result is kept as the JSON
  value that the text would encode; the text itself is not modelled. A request value holds
  no \<open>Decimal\<close>, so \<open>json.dumps\<close> of a dict of request values and literals cannot raise.
\<close>

definition json_dumps :: "attr \<Rightarrow> exn + json" where
  "json_dumps a =
     (if has_decimal a then Inl (TypeError ''Object of type Decimal is not JSON serializable'')
      else Inr (plain a))"

subsection \<open>The record store\<close>

text \<open>
  The table is an external service. An item is a mapping from attribute names to values;
  the store maps a key to the attributes of its item other than the key, and the item
  handed back carries its key as the attribute file_name. The store is passed explicitly;
  next to the items it keeps the trace of the calls made to it, most recent last, so that
  "no call is made" and "one call is made" can be stated.
\<close>

type_synonym item = "string \<rightharpoonup> attr"

datatype store_call =
    GetItem json
  | UpdateItem json json json json

record store =
  items :: "json \<rightharpoonup> item"
  calls :: "store_call list"

text \<open>
  What an invocation reads from outside: the clock (the text of
  \<open>datetime.utcnow().isoformat()\<close>), the library's \<open>json.loads\<close> (\<open>Inl\<close> the text of
  the decoding error), the library's \<open>str.upper\<close> on text that is not ASCII, and whether
  a store call fails (\<open>Some\<close> the text of the exception).
\<close>

record env =
  utcnow :: string
  loads :: "string \<Rightarrow> string + json"
  unicode_upper :: "string \<Rightarrow> string"
  fault :: "store_call \<Rightarrow> string option"

text \<open>
  \<open>s.upper()\<close>: computed on ASCII text, the library's on any other text.
  \<open>obj.upper()\<close>: only a str has the method.
\<close>

definition str_upper :: "env \<Rightarrow> string \<Rightarrow> string" where
  "str_upper e s = (if ascii s then upper s else unicode_upper e s)"

fun py_upper :: "env \<Rightarrow> json \<Rightarrow> exn + string" where
  "py_upper e (JStr s) = Inr (str_upper e s)"
| "py_upper e v = Inl (no_attribute v ''upper'')"

text \<open>
  Modelled from the spec: the client library behind \<open>table.get_item\<close> and
  \<open>table.update_item\<close> is not part of the repository. \<open>GetItem(key)\<close> yields the record
  under the key, if any. \<open>UpsertItem(key, fields)\<close> atomically sets the named attributes,
  creating the record if absent, and returns the resulting item; a failed call raises and
  leaves the items as they were. Which calls fail is left to the surroundings (\<open>fault\<close>),
  so a key the table would refuse is a failing call.
\<close>

definition item_of :: "json \<Rightarrow> item \<Rightarrow> item" where
  "item_of k it = it(''file_name'' \<mapsto> stored_form k)"

definition table_get_item :: "env \<Rightarrow> store \<Rightarrow> json \<Rightarrow> (exn + item option) \<times> store" where
  "table_get_item e st k =
     (let c = GetItem k; st1 = st\<lparr>calls := calls st @ [c]\<rparr> in
      case fault e c of
        Some m \<Rightarrow> (Inl (StoreError m), st1)
      | None \<Rightarrow> (Inr (map_option (item_of k) (items st k)), st1))"

definition table_update_item ::
  "env \<Rightarrow> store \<Rightarrow> json \<Rightarrow> json \<Rightarrow> json \<Rightarrow> json \<Rightarrow> (exn + item) \<times> store" where
  "table_update_item e st k state_v timestamp metadata =
     (let c = UpdateItem k state_v timestamp metadata; st1 = st\<lparr>calls := calls st @ [c]\<rparr> in
      case fault e c of
        Some m \<Rightarrow> (Inl (StoreError m), st1)
      | None \<Rightarrow>
          (let old = (case items st k of Some it \<Rightarrow> it | None \<Rightarrow> Map.empty);
               new = old(''state'' \<mapsto> stored_form state_v,
                         ''updated_at'' \<mapsto> stored_form timestamp,
                         ''metadata'' \<mapsto> stored_form metadata)
           in (Inr (item_of k new), st1\<lparr>items := (items st)(k \<mapsto> new)\<rparr>)))"

subsection \<open>The handler\<close>

text \<open>
  A response is the dict the handler returns. Its body is kept as the JSON value that the
  text made by \<open>json.dumps\<close> encodes. The \<open>print\<close> calls write a log and are left out.
\<close>

record response =
  statusCode :: int
  body :: json

definition item_get :: "item \<Rightarrow> string \<Rightarrow> attr \<Rightarrow> attr" where
  "item_get it k d = (case it k of Some v \<Rightarrow> v | None \<Rightarrow> d)"

definition get_state :: "env \<Rightarrow> store \<Rightarrow> json \<Rightarrow> (exn + response) \<times> store" where
  "get_state e st file_name =
     (case table_get_item e st file_name of
        (Inl x, st1) \<Rightarrow> (Inl x, st1)
      | (Inr (Some it), st1) \<Rightarrow>
          (case json_dumps (AMap [(''file_name'', item_get it ''file_name'' ANull),
                                  (''state'', item_get it ''state'' ANull),
                                  (''metadata'', item_get it ''metadata'' (AMap [])),
                                  (''updated_at'', item_get it ''updated_at'' ANull),
                                  (''exists'', ABool True)]) of
             Inl x \<Rightarrow> (Inl x, st1)
           | Inr b \<Rightarrow> (Inr \<lparr>statusCode = 200, body = b\<rparr>, st1))
      | (Inr None, st1) \<Rightarrow>
          (Inr \<lparr>statusCode = 200,
                body = JDict [(''file_name'', file_name),
                              (''state'', JNull),
                              (''metadata'', JDict []),
                              (''exists'', JBool False)]\<rparr>, st1))"

definition update_state ::
  "env \<Rightarrow> store \<Rightarrow> json \<Rightarrow> json \<Rightarrow> json \<Rightarrow> (exn + response) \<times> store" where
  "update_state e st file_name new_state metadata =
     (let timestamp = JStr (utcnow e) in
      case table_update_item e st file_name new_state timestamp metadata of
        (Inl x, st1) \<Rightarrow> (Inl x, st1)
      | (Inr updated_item, st1) \<Rightarrow>
          (case json_dumps (AMap [(''file_name'', item_get updated_item ''file_name'' ANull),
                                  (''state'', item_get updated_item ''state'' ANull),
                                  (''metadata'', item_get updated_item ''metadata'' (AMap [])),
                                  (''updated_at'', item_get updated_item ''updated_at'' ANull),
                                  (''success'', ABool True)]) of
             Inl x \<Rightarrow> (Inl x, st1)
           | Inr b \<Rightarrow> (Inr \<lparr>statusCode = 200, body = b\<rparr>, st1)))"

definition error_response :: "int \<Rightarrow> string \<Rightarrow> response" where
  "error_response code msg = \<lparr>statusCode = code, body = JDict [(''error'', JStr msg)]\<rparr>"

text \<open>Lines 28 to 31: which object is the request payload.\<close>

definition request_body :: "env \<Rightarrow> json \<Rightarrow> exn + json" where
  "request_body e event =
     (case py_get event ''body'' JNull of
        Inl x \<Rightarrow> Inl x
      | Inr (JStr s) \<Rightarrow>
          (case loads e s of Inl m \<Rightarrow> Inl (JSONDecodeError m) | Inr v \<Rightarrow> Inr v)
      | Inr _ \<Rightarrow> py_get event ''body'' event)"

text \<open>Lines 33 to 63: validation and dispatch on the payload.\<close>

definition dispatch :: "env \<Rightarrow> store \<Rightarrow> json \<Rightarrow> (exn + response) \<times> store" where
  "dispatch e st body_v =
     (case py_get body_v ''operation'' (JStr []) of
        Inl x \<Rightarrow> (Inl x, st)
      | Inr op_v \<Rightarrow>
     (case py_upper e op_v of
        Inl x \<Rightarrow> (Inl x, st)
      | Inr operation \<Rightarrow>
     (case py_get body_v ''file_name'' JNull of
        Inl x \<Rightarrow> (Inl x, st)
      | Inr file_name \<Rightarrow>
          if \<not> truthy file_name then (Inr (error_response 400 ''file_name is required''), st)
          else if operation = ''GET'' then get_state e st file_name
          else if operation = ''UPDATE'' then
            (case py_get body_v ''new_state'' JNull of
               Inl x \<Rightarrow> (Inl x, st)
             | Inr new_state \<Rightarrow>
            (case py_get body_v ''metadata'' (JDict []) of
               Inl x \<Rightarrow> (Inl x, st)
             | Inr metadata \<Rightarrow>
                 if \<not> truthy new_state
                 then (Inr (error_response 400 ''new_state is required for UPDATE operation''), st)
                 else update_state e st file_name new_state metadata))
          else (Inr (error_response 400
                  (''Invalid operation: '' @ operation @ ''. Use GET or UPDATE'')), st))))"

text \<open>The whole \<open>try\<close> block, then the \<open>except\<close> clause that turns any exception into a 500.\<close>

definition try_block :: "env \<Rightarrow> store \<Rightarrow> json \<Rightarrow> (exn + response) \<times> store" where
  "try_block e st event =
     (case request_body e event of
        Inl x \<Rightarrow> (Inl x, st)
      | Inr body_v \<Rightarrow> dispatch e st body_v)"

definition except_clause :: "(exn + response) \<times> store \<Rightarrow> response \<times> store" where
  "except_clause res =
     (case res of
        (Inl x, st1) \<Rightarrow> (error_response 500 (exn_text x), st1)
      | (Inr r, st1) \<Rightarrow> (r, st1))"

definition lambda_handler :: "env \<Rightarrow> store \<Rightarrow> json \<Rightarrow> response \<times> store" where
  "lambda_handler e st event = except_clause (try_block e st event)"

subsection \<open>Reading responses and stored records\<close>

text \<open>
  A field of a response body, and an attribute of the record under a key, as the table
  would hand it back.
\<close>

definition field :: "response \<Rightarrow> string \<Rightarrow> json option" where
  "field r k = (case body r of JDict kvs \<Rightarrow> map_of kvs k | _ \<Rightarrow> None)"

definition stored :: "store \<Rightarrow> json \<Rightarrow> string \<Rightarrow> attr option" where
  "stored st k a = (case items st k of Some it \<Rightarrow> item_of k it a | None \<Rightarrow> None)"

text \<open>A dict with every entry of one key removed.\<close>

definition without :: "string \<Rightarrow> (string \<times> json) list \<Rightarrow> (string \<times> json) list" where
  "without k kvs = filter (\<lambda>p. fst p \<noteq> k) kvs"

subsection \<open>Sample surroundings\<close>

text \<open>
  Concrete surroundings for the examples: a decoder that knows two texts, a store that
  answers, a store that is down, and a table with no record. The examples upper-case
  ASCII text only.
\<close>

definition sample_loads :: "string \<Rightarrow> string + json" where
  "sample_loads s =
     (if s = ''{}'' then Inr (JDict [])
      else if s = ''null'' then Inr JNull
      else Inl ''Expecting value: line 1 column 1 (char 0)'')"

definition env_up :: "string \<Rightarrow> env" where
  "env_up t = \<lparr>utcnow = t, loads = sample_loads, unicode_upper = (\<lambda>s. s),
              fault = (\<lambda>c. None)\<rparr>"

definition env_down :: "string \<Rightarrow> string \<Rightarrow> env" where
  "env_down t m = \<lparr>utcnow = t, loads = sample_loads, unicode_upper = (\<lambda>s. s),
                  fault = (\<lambda>c. Some m)\<rparr>"

definition empty_table :: store where
  "empty_table = \<lparr>items = Map.empty, calls = []\<rparr>"

section \<open>Helper facts\<close>

lemma upper_examples:
  "upper ''get'' = ''GET''" "upper ''update'' = ''UPDATE''" "upper ''delete'' = ''DELETE''"
  "upper ''Update'' = ''UPDATE''" "upper [] = []"
  by code_simp+

lemma digit7_iff: "digit7 c \<longleftrightarrow> 128 \<le> (of_char c :: nat)"
  by (cases c) simp

lemma upper_char_ascii: "\<not> digit7 (upper_char c) \<Longrightarrow> \<not> digit7 c"
  by (auto simp: upper_char_def Let_def digit7_iff split: if_splits)

lemma upper_ascii: "ascii (upper s) \<Longrightarrow> ascii s"
  by (induction s) (auto simp: ascii_def upper_def dest: upper_char_ascii)

lemma upper_UPDATE_ascii: "upper s = ''UPDATE'' \<Longrightarrow> str_upper e s = ''UPDATE''"
proof -
  assume u: "upper s = ''UPDATE''"
  have "ascii (upper s)" unfolding u by (simp add: ascii_def)
  then have "ascii s" by (rule upper_ascii)
  with u show ?thesis by (simp add: str_upper_def)
qed

lemma str_upper_examples:
  "str_upper e ''get'' = ''GET''" "str_upper e ''update'' = ''UPDATE''"
  "str_upper e ''delete'' = ''DELETE''" "str_upper e ''Update'' = ''UPDATE''"
  "str_upper e [] = []"
  by (simp_all add: str_upper_def ascii_def upper_examples)

lemma plain_stored_form: "plain (stored_form v) = v"
proof (induction v)
  case (JList xs)
  then show ?case by (simp add: map_idI)
next
  case (JDict kvs)
  have "map (\<lambda>kv. (fst kv, plain (stored_form (snd kv)))) kvs = kvs"
  proof (rule map_idI)
    fix kv assume m: "kv \<in> set kvs"
    obtain a b where kv: "kv = (a, b)" by (cases kv)
    from m kv JDict.IH [of "(a, b)" b] show "(fst kv, plain (stored_form (snd kv))) = kv"
      by simp
  qed
  then show ?case by (simp add: comp_def)
qed simp_all

lemma has_decimal_stored_form: "has_decimal (stored_form v) = has_number v"
proof (induction v)
  case (JList xs)
  then show ?case by (auto simp: list_ex_iff)
next
  case (JDict kvs)
  have "has_decimal (stored_form (snd kv)) = has_number (snd kv)" if m: "kv \<in> set kvs" for kv
  proof -
    obtain a b where kv: "kv = (a, b)" by (cases kv)
    from m kv JDict.IH [of "(a, b)" b] show ?thesis by simp
  qed
  then show ?case by (auto simp: list_ex_iff)
qed simp_all

text \<open>What an Update does when the store answers: the write, and then the answer.\<close>

lemma update_state_writes:
  assumes "fault e (UpdateItem fn ns (JStr (utcnow e)) md) = None"
  shows "stored (snd (update_state e st fn ns md)) fn ''state'' = Some (stored_form ns)"
    and "stored (snd (update_state e st fn ns md)) fn ''metadata'' = Some (stored_form md)"
    and "stored (snd (update_state e st fn ns md)) fn ''updated_at'' = Some (AStr (utcnow e))"
    and "stored (snd (update_state e st fn ns md)) fn ''file_name'' = Some (stored_form fn)"
    and "calls (snd (update_state e st fn ns md))
           = calls st @ [UpdateItem fn ns (JStr (utcnow e)) md]"
  using assms
  by (simp_all add: update_state_def table_update_item_def Let_def stored_def item_of_def
      item_get_def json_dumps_def)

lemma update_state_answer:
  assumes "fault e (UpdateItem fn ns (JStr (utcnow e)) md) = None"
  shows "fst (update_state e st fn ns md) =
     (if has_number fn \<or> has_number ns \<or> has_number md
      then Inl (TypeError ''Object of type Decimal is not JSON serializable'')
      else Inr \<lparr>statusCode = 200,
                body = JDict [(''file_name'', fn), (''state'', ns), (''metadata'', md),
                              (''updated_at'', JStr (utcnow e)), (''success'', JBool True)]\<rparr>)"
  using assms
  by (simp add: update_state_def table_update_item_def Let_def item_of_def item_get_def
      json_dumps_def has_decimal_stored_form plain_stored_form)

lemma update_state_fault:
  assumes "fault e (UpdateItem fn ns (JStr (utcnow e)) md) = Some m"
  shows "update_state e st fn ns md =
           (Inl (StoreError m), st\<lparr>calls := calls st @ [UpdateItem fn ns (JStr (utcnow e)) md]\<rparr>)"
  using assms by (simp add: update_state_def table_update_item_def Let_def)

lemma update_state_Inr:
  assumes "update_state e st fn ns md = (Inr r, st1)"
  shows "fault e (UpdateItem fn ns (JStr (utcnow e)) md) = None"
    and "\<not> has_number fn" and "\<not> has_number ns" and "\<not> has_number md"
    and "r = \<lparr>statusCode = 200,
              body = JDict [(''file_name'', fn), (''state'', ns), (''metadata'', md),
                            (''updated_at'', JStr (utcnow e)), (''success'', JBool True)]\<rparr>"
    and "st1 = snd (update_state e st fn ns md)"
proof -
  show f: "fault e (UpdateItem fn ns (JStr (utcnow e)) md) = None"
  proof (cases "fault e (UpdateItem fn ns (JStr (utcnow e)) md)")
    case (Some m)
    from update_state_fault [OF Some, of st] assms show ?thesis by simp
  qed simp
  from update_state_answer [OF f, of st] assms
  have a: "(if has_number fn \<or> has_number ns \<or> has_number md
      then Inl (TypeError ''Object of type Decimal is not JSON serializable'')
      else Inr \<lparr>statusCode = 200,
                body = JDict [(''file_name'', fn), (''state'', ns), (''metadata'', md),
                              (''updated_at'', JStr (utcnow e)), (''success'', JBool True)]\<rparr>)
      = Inr r"
    by simp
  then show "\<not> has_number fn" and "\<not> has_number ns" and "\<not> has_number md"
    by (simp_all split: if_splits)
  with a show "r = \<lparr>statusCode = 200,
              body = JDict [(''file_name'', fn), (''state'', ns), (''metadata'', md),
                            (''updated_at'', JStr (utcnow e)), (''success'', JBool True)]\<rparr>"
    by simp
  from assms show "st1 = snd (update_state e st fn ns md)" by simp
qed

lemma update_state_succeeds:
  assumes "fault e (UpdateItem fn ns (JStr (utcnow e)) md) = None"
      and "\<not> has_number fn" and "\<not> has_number ns" and "\<not> has_number md"
  shows "update_state e st fn ns md =
     (Inr \<lparr>statusCode = 200,
           body = JDict [(''file_name'', fn), (''state'', ns), (''metadata'', md),
                         (''updated_at'', JStr (utcnow e)), (''success'', JBool True)]\<rparr>,
      snd (update_state e st fn ns md))"
  using update_state_answer [OF assms(1), of st] assms(2-) by (simp add: prod_eq_iff)

text \<open>What a Get does when the store answers and holds a record under the key.\<close>

lemma get_state_present:
  assumes "fault e (GetItem fn) = None"
      and "stored st fn ''state'' = Some (stored_form ns)"
      and "stored st fn ''metadata'' = Some (stored_form md)"
      and "stored st fn ''updated_at'' = Some (AStr ts)"
  shows "get_state e st fn =
     (if has_number fn \<or> has_number ns \<or> has_number md
      then Inl (TypeError ''Object of type Decimal is not JSON serializable'')
      else Inr \<lparr>statusCode = 200,
                body = JDict [(''file_name'', fn), (''state'', ns), (''metadata'', md),
                              (''updated_at'', JStr ts), (''exists'', JBool True)]\<rparr>,
      st\<lparr>calls := calls st @ [GetItem fn]\<rparr>)"
  using assms
  by (auto simp: get_state_def table_get_item_def stored_def item_of_def item_get_def
      json_dumps_def has_decimal_stored_form plain_stored_form split: option.splits)

lemma get_state_absent:
  assumes "fault e (GetItem fn) = None" and "items st fn = None"
  shows "get_state e st fn =
     (Inr \<lparr>statusCode = 200,
           body = JDict [(''file_name'', fn), (''state'', JNull),
                         (''metadata'', JDict []), (''exists'', JBool False)]\<rparr>,
      st\<lparr>calls := calls st @ [GetItem fn]\<rparr>)"
  using assms by (simp add: get_state_def table_get_item_def)

lemma map_of_without:
  "map_of (without k kvs) k' = (if k' = k then None else map_of kvs k')"
  by (induction kvs) (auto simp: without_def)

lemma handler_on_payload:
  "request_body e ev = Inr p \<Longrightarrow> lambda_handler e st ev = except_clause (dispatch e st p)"
  by (simp add: lambda_handler_def try_block_def)

lemma handler_on_parse_error:
  "request_body e ev = Inl x \<Longrightarrow> lambda_handler e st ev = (error_response 500 (exn_text x), st)"
  by (simp add: lambda_handler_def try_block_def except_clause_def)

lemma dispatch_falsy_file_name:
  assumes "\<not> truthy (case map_of b ''file_name'' of Some v \<Rightarrow> v | None \<Rightarrow> JNull)"
  shows "dispatch e st (JDict b) =
     (case py_upper e (case map_of b ''operation'' of Some v \<Rightarrow> v | None \<Rightarrow> JStr []) of
        Inl x \<Rightarrow> (Inl x, st)
      | Inr operation \<Rightarrow> (Inr (error_response 400 ''file_name is required''), st))"
  using assms by (simp add: dispatch_def split: sum.splits)

text \<open>
  What one run of a store-calling function does to the trace: it appends one call. Either
  that call failed, the exception is the store's and the records are untouched; or it
  answered, and the result is a 200 response or the \<open>TypeError\<close> of \<open>json.dumps\<close>.
\<close>

lemma get_state_trace:
  "get_state e st fn = (res, st') \<Longrightarrow>
     \<exists>c. calls st' = calls st @ [c] \<and>
       (case fault e c of
          Some m \<Rightarrow> res = Inl (StoreError m) \<and> items st' = items st
        | None \<Rightarrow> (\<exists>r. res = Inr r \<and> statusCode r = 200) \<or> (\<exists>m. res = Inl (TypeError m)))"
  by (auto simp: get_state_def table_get_item_def Let_def json_dumps_def
      split: option.splits if_splits)

lemma update_state_trace:
  "update_state e st fn ns md = (res, st') \<Longrightarrow>
     \<exists>c. calls st' = calls st @ [c] \<and>
       (case fault e c of
          Some m \<Rightarrow> res = Inl (StoreError m) \<and> items st' = items st
        | None \<Rightarrow> (\<exists>r. res = Inr r \<and> statusCode r = 200) \<or> (\<exists>m. res = Inl (TypeError m)))"
  by (auto simp: update_state_def table_update_item_def Let_def json_dumps_def
      split: option.splits if_splits)

lemma dispatch_trace:
  assumes "dispatch e st p = (res, st')"
  shows "(st' = st \<and> (\<forall>m. res \<noteq> Inl (TypeError m))) \<or>
         (\<exists>c. calls st' = calls st @ [c] \<and>
            (case fault e c of
               Some m \<Rightarrow> res = Inl (StoreError m) \<and> items st' = items st
             | None \<Rightarrow> (\<exists>r. res = Inr r \<and> statusCode r = 200)
                        \<or> (\<exists>m. res = Inl (TypeError m))))"
proof -
  have a: "v \<noteq> Inl (TypeError m)" if "py_get p k d = v" for k d v m
    using that by (cases p) (auto simp: no_attribute_def)
  have b: "v \<noteq> Inl (TypeError m)" if "py_upper e w = v" for w v m
    using that by (cases w) (auto simp: no_attribute_def)
  show ?thesis
    using assms a b unfolding dispatch_def
    by (simp split: sum.splits if_splits)
       (blast dest: get_state_trace update_state_trace)+
qed

lemma try_block_trace:
  assumes "try_block e st ev = (res, st')"
  shows "(st' = st \<and> (\<forall>m. res \<noteq> Inl (TypeError m))) \<or>
         (\<exists>c. calls st' = calls st @ [c] \<and>
            (case fault e c of
               Some m \<Rightarrow> res = Inl (StoreError m) \<and> items st' = items st
             | None \<Rightarrow> (\<exists>r. res = Inr r \<and> statusCode r = 200)
                        \<or> (\<exists>m. res = Inl (TypeError m))))"
proof (cases "request_body e ev")
  case (Inl x)
  have "x \<noteq> TypeError m" for m
    using Inl
    by (cases ev) (auto simp: request_body_def no_attribute_def split: json.splits sum.splits
        option.splits)
  with Inl assms show ?thesis
    by (auto simp: try_block_def)
next
  case (Inr p)
  with assms show ?thesis
    by (simp add: try_block_def dispatch_trace)
qed

lemma env_up_simps:
  "fault (env_up t) c = None" "utcnow (env_up t) = t" "loads (env_up t) = sample_loads"
  by (simp_all add: env_up_def)

lemma env_down_simps:
  "fault (env_down t m) c = Some m" "utcnow (env_down t m) = t"
  "loads (env_down t m) = sample_loads"
  by (simp_all add: env_down_def)

lemmas handler_defs =
  lambda_handler_def try_block_def request_body_def dispatch_def except_clause_def
  error_response_def sample_loads_def no_attribute_def quoted_def str_upper_def ascii_def

lemmas run_defs =
  update_state_def table_update_item_def get_state_def table_get_item_def item_get_def
  item_of_def json_dumps_def env_up_def env_down_def empty_table_def field_def stored_def
  Let_def

section \<open>Get and Update on the store\<close>

text \<open>
  C1. For every file name, an Update that succeeds (it answers 200) followed by a Get of the
  same file name (whose store call answers) yields a 200 response whose state, metadata and
  updated_at are the values the Update wrote, with the exists flag true. The Get leaves the
  records as they are.
\<close>

theorem update_then_get:
  assumes "update_state e1 st fn ns md = (Inr r1, st1)"
      and "fault e2 (GetItem fn) = None"
  shows "\<exists>r2 st2. get_state e2 st1 fn = (Inr r2, st2)
           \<and> statusCode r2 = 200
           \<and> field r2 ''state'' = Some ns
           \<and> field r2 ''metadata'' = Some md
           \<and> field r2 ''updated_at'' = Some (JStr (utcnow e1))
           \<and> field r2 ''updated_at'' = field r1 ''updated_at''
           \<and> field r2 ''exists'' = Some (JBool True)
           \<and> items st2 = items st1"
proof -
  note u = update_state_Inr [OF assms(1)]
  note w = update_state_writes [OF u(1), of st]
  have "get_state e2 st1 fn =
     (Inr \<lparr>statusCode = 200,
           body = JDict [(''file_name'', fn), (''state'', ns), (''metadata'', md),
                         (''updated_at'', JStr (utcnow e1)), (''exists'', JBool True)]\<rparr>,
      st1\<lparr>calls := calls st1 @ [GetItem fn]\<rparr>)"
    using get_state_present [OF assms(2), of st1 ns md "utcnow e1"] w(1-3) u(2-4,6)
    by simp
  with u(5) show ?thesis
    by (simp add: field_def)
qed

theorem update_then_get_witness:
  "fault (env_up ''2024-05-01T10:00:07.000000'') (GetItem (JStr ''doc1.pdf'')) = None
   \<and> (\<exists>r1 st1 r2 st2.
        update_state (env_up ''2024-05-01T10:00:00.123456'') empty_table
          (JStr ''doc1.pdf'') (JStr ''COMPLETED'') (JDict [(''source'', JStr ''scanner'')])
          = (Inr r1, st1)
      \<and> get_state (env_up ''2024-05-01T10:00:07.000000'') st1 (JStr ''doc1.pdf'') = (Inr r2, st2)
      \<and> statusCode r2 = 200
      \<and> field r2 ''state'' = Some (JStr ''COMPLETED'')
      \<and> field r2 ''metadata'' = Some (JDict [(''source'', JStr ''scanner'')])
      \<and> field r2 ''updated_at'' = Some (JStr ''2024-05-01T10:00:00.123456'')
      \<and> field r2 ''exists'' = Some (JBool True))"
proof -
  have f: "fault (env_up ''2024-05-01T10:00:07.000000'') (GetItem (JStr ''doc1.pdf'')) = None"
    by (simp add: env_up_def)
  have u:
    "update_state (env_up ''2024-05-01T10:00:00.123456'') empty_table
       (JStr ''doc1.pdf'') (JStr ''COMPLETED'') (JDict [(''source'', JStr ''scanner'')])
       = (Inr \<lparr>statusCode = 200,
               body = JDict [(''file_name'', JStr ''doc1.pdf''), (''state'', JStr ''COMPLETED''),
                             (''metadata'', JDict [(''source'', JStr ''scanner'')]),
                             (''updated_at'', JStr (utcnow (env_up ''2024-05-01T10:00:00.123456''))),
                             (''success'', JBool True)]\<rparr>,
          snd (update_state (env_up ''2024-05-01T10:00:00.123456'') empty_table
            (JStr ''doc1.pdf'') (JStr ''COMPLETED'') (JDict [(''source'', JStr ''scanner'')])))"
    by (rule update_state_succeeds) (simp_all add: env_up_simps)
  from update_then_get [OF u f] f u show ?thesis
    by (simp add: env_up_simps) blast
qed

text \<open>
  C2. For every file name and every two successive Updates, once the store has answered the
  second, the record under the file name holds exactly the metadata, the state and the
  timestamp of the second: nothing of the first Update's values remains, whatever they
  were. Read as JSON, the stored metadata and state are the values the second Update was
  given, and a second response that is a success reports the same values.
\<close>

theorem update_replaces_record:
  assumes "fault e2 (UpdateItem fn s2 (JStr (utcnow e2)) m2) = None"
  shows "stored (snd (update_state e2 (snd (update_state e1 st fn s1 m1)) fn s2 m2))
           fn ''metadata'' = Some (stored_form m2)
       \<and> map_option plain
           (stored (snd (update_state e2 (snd (update_state e1 st fn s1 m1)) fn s2 m2))
              fn ''metadata'') = Some m2
       \<and> map_option plain
           (stored (snd (update_state e2 (snd (update_state e1 st fn s1 m1)) fn s2 m2))
              fn ''state'') = Some s2
       \<and> stored (snd (update_state e2 (snd (update_state e1 st fn s1 m1)) fn s2 m2))
           fn ''updated_at'' = Some (AStr (utcnow e2))
       \<and> (\<forall>r2. fst (update_state e2 (snd (update_state e1 st fn s1 m1)) fn s2 m2) = Inr r2 \<longrightarrow>
             field r2 ''metadata'' = Some m2 \<and> field r2 ''state'' = Some s2
           \<and> field r2 ''updated_at'' = Some (JStr (utcnow e2)))"
proof -
  let ?st1 = "snd (update_state e1 st fn s1 m1)"
  note w = update_state_writes [OF assms, of ?st1]
  have r: "field r2 ''metadata'' = Some m2 \<and> field r2 ''state'' = Some s2
           \<and> field r2 ''updated_at'' = Some (JStr (utcnow e2))"
    if "fst (update_state e2 ?st1 fn s2 m2) = Inr r2" for r2
    using update_state_answer [OF assms, of ?st1] that
    by (auto simp: field_def split: if_splits)
  from w(1-3) r show ?thesis
    by (simp add: plain_stored_form)
qed

theorem update_replaces_record_witness:
  "fault (env_up ''2024-05-01T10:05:00'')
     (UpdateItem (JStr ''doc1.pdf'') (JStr ''COMPLETED'')
        (JStr (utcnow (env_up ''2024-05-01T10:05:00''))) (JDict [(''b'', JInt 2)])) = None
   \<and> stored (snd (update_state (env_up ''2024-05-01T10:05:00'')
        (snd (update_state (env_up ''2024-05-01T10:00:00'') empty_table
           (JStr ''doc1.pdf'') (JStr ''PENDING_OCR'') (JDict [(''a'', JInt 1)])))
        (JStr ''doc1.pdf'') (JStr ''COMPLETED'') (JDict [(''b'', JInt 2)])))
       (JStr ''doc1.pdf'') ''metadata'' = Some (AMap [(''b'', ADecimal 2)])
   \<and> map_option plain (stored (snd (update_state (env_up ''2024-05-01T10:05:00'')
        (snd (update_state (env_up ''2024-05-01T10:00:00'') empty_table
           (JStr ''doc1.pdf'') (JStr ''PENDING_OCR'') (JDict [(''a'', JInt 1)])))
        (JStr ''doc1.pdf'') (JStr ''COMPLETED'') (JDict [(''b'', JInt 2)])))
       (JStr ''doc1.pdf'') ''metadata'') = Some (JDict [(''b'', JInt 2)])
   \<and> map_option plain (stored (snd (update_state (env_up ''2024-05-01T10:05:00'')
        (snd (update_state (env_up ''2024-05-01T10:00:00'') empty_table
           (JStr ''doc1.pdf'') (JStr ''PENDING_OCR'') (JDict [(''a'', JInt 1)])))
        (JStr ''doc1.pdf'') (JStr ''COMPLETED'') (JDict [(''b'', JInt 2)])))
       (JStr ''doc1.pdf'') ''state'') = Some (JStr ''COMPLETED'')
   \<and> stored (snd (update_state (env_up ''2024-05-01T10:05:00'')
        (snd (update_state (env_up ''2024-05-01T10:00:00'') empty_table
           (JStr ''doc1.pdf'') (JStr ''PENDING_OCR'') (JDict [(''a'', JInt 1)])))
        (JStr ''doc1.pdf'') (JStr ''COMPLETED'') (JDict [(''b'', JInt 2)])))
       (JStr ''doc1.pdf'') ''updated_at'' = Some (AStr ''2024-05-01T10:05:00'')
   \<and> fst (update_state (env_up ''2024-05-01T10:05:00'')
        (snd (update_state (env_up ''2024-05-01T10:00:00'') empty_table
           (JStr ''doc1.pdf'') (JStr ''PENDING_OCR'') (JDict [(''a'', JStr ''x'')])))
        (JStr ''doc1.pdf'') (JStr ''COMPLETED'') (JDict [(''b'', JStr ''y'')]))
     = Inr \<lparr>statusCode = 200,
            body = JDict [(''file_name'', JStr ''doc1.pdf''), (''state'', JStr ''COMPLETED''),
                          (''metadata'', JDict [(''b'', JStr ''y'')]),
                          (''updated_at'', JStr ''2024-05-01T10:05:00''),
                          (''success'', JBool True)]\<rparr>
   \<and> field \<lparr>statusCode = 200,
            body = JDict [(''file_name'', JStr ''doc1.pdf''), (''state'', JStr ''COMPLETED''),
                          (''metadata'', JDict [(''b'', JStr ''y'')]),
                          (''updated_at'', JStr ''2024-05-01T10:05:00''),
                          (''success'', JBool True)]\<rparr> ''metadata''
     = Some (JDict [(''b'', JStr ''y'')])"
proof -
  let ?e1 = "env_up ''2024-05-01T10:00:00''"
  let ?e2 = "env_up ''2024-05-01T10:05:00''"
  let ?r = "\<lparr>statusCode = 200,
            body = JDict [(''file_name'', JStr ''doc1.pdf''), (''state'', JStr ''COMPLETED''),
                          (''metadata'', JDict [(''b'', JStr ''y'')]),
                          (''updated_at'', JStr ''2024-05-01T10:05:00''),
                          (''success'', JBool True)]\<rparr>"
  have f: "fault ?e2
     (UpdateItem (JStr ''doc1.pdf'') (JStr ''COMPLETED'')
        (JStr (utcnow ?e2)) (JDict [(''b'', JInt 2)])) = None"
    by (simp add: env_up_simps)
  have a: "stored (snd (update_state ?e2
        (snd (update_state ?e1 empty_table
           (JStr ''doc1.pdf'') (JStr ''PENDING_OCR'') (JDict [(''a'', JInt 1)])))
        (JStr ''doc1.pdf'') (JStr ''COMPLETED'') (JDict [(''b'', JInt 2)])))
       (JStr ''doc1.pdf'') ''metadata'' = Some (AMap [(''b'', ADecimal 2)])
   \<and> map_option plain (stored (snd (update_state ?e2
        (snd (update_state ?e1 empty_table
           (JStr ''doc1.pdf'') (JStr ''PENDING_OCR'') (JDict [(''a'', JInt 1)])))
        (JStr ''doc1.pdf'') (JStr ''COMPLETED'') (JDict [(''b'', JInt 2)])))
       (JStr ''doc1.pdf'') ''metadata'') = Some (JDict [(''b'', JInt 2)])
   \<and> map_option plain (stored (snd (update_state ?e2
        (snd (update_state ?e1 empty_table
           (JStr ''doc1.pdf'') (JStr ''PENDING_OCR'') (JDict [(''a'', JInt 1)])))
        (JStr ''doc1.pdf'') (JStr ''COMPLETED'') (JDict [(''b'', JInt 2)])))
       (JStr ''doc1.pdf'') ''state'') = Some (JStr ''COMPLETED'')
   \<and> stored (snd (update_state ?e2
        (snd (update_state ?e1 empty_table
           (JStr ''doc1.pdf'') (JStr ''PENDING_OCR'') (JDict [(''a'', JInt 1)])))
        (JStr ''doc1.pdf'') (JStr ''COMPLETED'') (JDict [(''b'', JInt 2)])))
       (JStr ''doc1.pdf'') ''updated_at'' = Some (AStr ''2024-05-01T10:05:00'')"
    using update_replaces_record [OF f, of ?e1 empty_table
      "JStr ''PENDING_OCR''" "JDict [(''a'', JInt 1)]"]
    by (simp add: env_up_simps)
  have g: "fault ?e2
     (UpdateItem (JStr ''doc1.pdf'') (JStr ''COMPLETED'')
        (JStr (utcnow ?e2)) (JDict [(''b'', JStr ''y'')])) = None"
    by (simp add: env_up_simps)
  have h: "fst (update_state ?e2
        (snd (update_state ?e1 empty_table
           (JStr ''doc1.pdf'') (JStr ''PENDING_OCR'') (JDict [(''a'', JStr ''x'')])))
        (JStr ''doc1.pdf'') (JStr ''COMPLETED'') (JDict [(''b'', JStr ''y'')])) = Inr ?r"
    by (simp add: update_state_answer env_up_simps)
  have b: "field ?r ''metadata'' = Some (JDict [(''b'', JStr ''y'')])"
    using update_replaces_record [OF g, of ?e1 empty_table
      "JStr ''PENDING_OCR''" "JDict [(''a'', JStr ''x'')]"] h
    by blast
  from f a h b show ?thesis
    by blast
qed

text \<open>
  C3. For every file name under which the store holds no record (records are created by
  Update only and never deleted, so this is a file name never written), a Get whose store
  call answers returns a success with status 200: the state is null, the metadata is the
  empty mapping, the exists flag is false and the body has no updated_at field. The store's
  records are left as they are.
\<close>

theorem get_never_written:
  assumes "items st fn = None"
      and "fault e (GetItem fn) = None"
  shows "\<exists>r st'. get_state e st fn = (Inr r, st')
           \<and> statusCode r = 200
           \<and> body r = JDict [(''file_name'', fn), (''state'', JNull),
                              (''metadata'', JDict []), (''exists'', JBool False)]
           \<and> field r ''updated_at'' = None
           \<and> items st' = items st"
  using get_state_absent [OF assms(2,1)] by (simp add: field_def)

theorem get_never_written_witness:
  "items empty_table (JStr ''missing.pdf'') = None
   \<and> fault (env_up ''2024-05-01T10:00:00'') (GetItem (JStr ''missing.pdf'')) = None
   \<and> (\<exists>r st'. get_state (env_up ''2024-05-01T10:00:00'') empty_table (JStr ''missing.pdf'')
                  = (Inr r, st')
         \<and> statusCode r = 200
         \<and> body r = JDict [(''file_name'', JStr ''missing.pdf''), (''state'', JNull),
                            (''metadata'', JDict []), (''exists'', JBool False)]
         \<and> field r ''updated_at'' = None
         \<and> items st' = items empty_table)"
proof -
  have a: "items empty_table (JStr ''missing.pdf'') = None"
    by (simp add: empty_table_def)
  have f: "fault (env_up ''2024-05-01T10:00:00'') (GetItem (JStr ''missing.pdf'')) = None"
    by (simp add: env_up_def)
  from get_never_written [OF a f] a f show ?thesis
    by blast
qed

text \<open>
  C8, as amended. For every file name, state and metadata that hold no number, the same
  Update applied twice in succession, with the store answering both calls, yields two 200
  success responses with the same state and the same metadata. Each response carries the
  clock reading of its own call as updated_at, so the second timestamp is newly computed;
  it differs from the first exactly when the clock reading differs. The store has seen
  exactly the two writes and holds the second timestamp.
\<close>

theorem repeated_update:
  assumes "fault e1 (UpdateItem fn ns (JStr (utcnow e1)) md) = None"
      and "fault e2 (UpdateItem fn ns (JStr (utcnow e2)) md) = None"
      and "\<not> has_number fn" and "\<not> has_number ns" and "\<not> has_number md"
  shows "\<exists>r1 st1 r2 st2.
           update_state e1 st fn ns md = (Inr r1, st1)
         \<and> update_state e2 st1 fn ns md = (Inr r2, st2)
         \<and> statusCode r1 = 200 \<and> statusCode r2 = 200
         \<and> field r1 ''success'' = Some (JBool True) \<and> field r2 ''success'' = Some (JBool True)
         \<and> field r1 ''state'' = Some ns \<and> field r2 ''state'' = Some ns
         \<and> field r1 ''metadata'' = Some md \<and> field r2 ''metadata'' = Some md
         \<and> field r1 ''updated_at'' = Some (JStr (utcnow e1))
         \<and> field r2 ''updated_at'' = Some (JStr (utcnow e2))
         \<and> (field r1 ''updated_at'' = field r2 ''updated_at'') = (utcnow e1 = utcnow e2)
         \<and> stored st2 fn ''updated_at'' = Some (AStr (utcnow e2))
         \<and> stored st2 fn ''state'' = Some (stored_form ns)
         \<and> stored st2 fn ''metadata'' = Some (stored_form md)
         \<and> calls st2 = calls st @ [UpdateItem fn ns (JStr (utcnow e1)) md,
                                    UpdateItem fn ns (JStr (utcnow e2)) md]"
proof -
  let ?st1 = "snd (update_state e1 st fn ns md)"
  let ?st2 = "snd (update_state e2 ?st1 fn ns md)"
  note u1 = update_state_succeeds [OF assms(1,3-5), of st]
  note u2 = update_state_succeeds [OF assms(2,3-5), of ?st1]
  note w1 = update_state_writes [OF assms(1), of st]
  note w2 = update_state_writes [OF assms(2), of ?st1]
  show ?thesis
    apply (rule exI, rule exI [of _ ?st1], rule exI, rule exI [of _ ?st2])
    apply (intro conjI)
                    apply (rule u1)
                   apply (rule u2)
                  apply (simp_all add: field_def w1 w2)
    done
qed

theorem repeated_update_witness:
  "\<not> has_number (JStr ''doc1.pdf'') \<and> \<not> has_number (JStr ''PENDING_OCR'')
   \<and> \<not> has_number (JDict [(''source'', JStr ''scanner'')])
   \<and> (\<exists>r1 st1 r2 st2.
         update_state (env_up ''2024-05-01T10:00:00.000100'') empty_table
           (JStr ''doc1.pdf'') (JStr ''PENDING_OCR'') (JDict [(''source'', JStr ''scanner'')])
           = (Inr r1, st1)
       \<and> update_state (env_up ''2024-05-01T10:00:00.000350'') st1
           (JStr ''doc1.pdf'') (JStr ''PENDING_OCR'') (JDict [(''source'', JStr ''scanner'')])
           = (Inr r2, st2)
       \<and> statusCode r1 = 200 \<and> statusCode r2 = 200
       \<and> field r1 ''state'' = Some (JStr ''PENDING_OCR'')
       \<and> field r2 ''state'' = Some (JStr ''PENDING_OCR'')
       \<and> field r1 ''metadata'' = Some (JDict [(''source'', JStr ''scanner'')])
       \<and> field r2 ''metadata'' = Some (JDict [(''source'', JStr ''scanner'')])
       \<and> field r1 ''updated_at'' = Some (JStr ''2024-05-01T10:00:00.000100'')
       \<and> field r2 ''updated_at'' = Some (JStr ''2024-05-01T10:00:00.000350'')
       \<and> field r1 ''updated_at'' \<noteq> field r2 ''updated_at'')"
proof -
  have n: "\<not> has_number (JStr ''doc1.pdf'')" "\<not> has_number (JStr ''PENDING_OCR'')"
    "\<not> has_number (JDict [(''source'', JStr ''scanner'')])"
    by simp_all
  have f1: "fault (env_up ''2024-05-01T10:00:00.000100'')
              (UpdateItem (JStr ''doc1.pdf'') (JStr ''PENDING_OCR'')
                 (JStr (utcnow (env_up ''2024-05-01T10:00:00.000100'')))
                 (JDict [(''source'', JStr ''scanner'')])) = None"
    by (simp add: env_up_simps)
  have f2: "fault (env_up ''2024-05-01T10:00:00.000350'')
              (UpdateItem (JStr ''doc1.pdf'') (JStr ''PENDING_OCR'')
                 (JStr (utcnow (env_up ''2024-05-01T10:00:00.000350'')))
                 (JDict [(''source'', JStr ''scanner'')])) = None"
    by (simp add: env_up_simps)
  from repeated_update [OF f1 f2 n, of empty_table] n
  show ?thesis
    by (simp add: env_up_simps) blast
qed

text \<open>
  C8, as stated, fails. When the clock reads the same at both calls, the two responses are
  equal, updated_at included: line 110 reads the clock anew, and nothing makes the second
  reading differ from the first. And when the metadata holds a number, as \<open>{"pages": 5}\<close>
  does, the store writes the record and hands the number back as a \<open>Decimal\<close>, on which
  \<open>json.dumps\<close> raises: the Update is answered with a \<open>TypeError\<close>, a 500, both times.
\<close>

theorem repeated_update_counterexample:
  "fst (update_state (env_up ''2024-05-01T10:00:00'') empty_table
          (JStr ''doc1.pdf'') (JStr ''PENDING_OCR'') (JDict []))
     = Inr \<lparr>statusCode = 200,
            body = JDict [(''file_name'', JStr ''doc1.pdf''), (''state'', JStr ''PENDING_OCR''),
                          (''metadata'', JDict []),
                          (''updated_at'', JStr ''2024-05-01T10:00:00''),
                          (''success'', JBool True)]\<rparr>
   \<and> fst (update_state (env_up ''2024-05-01T10:00:00'')
          (snd (update_state (env_up ''2024-05-01T10:00:00'') empty_table
             (JStr ''doc1.pdf'') (JStr ''PENDING_OCR'') (JDict [])))
          (JStr ''doc1.pdf'') (JStr ''PENDING_OCR'') (JDict []))
     = Inr \<lparr>statusCode = 200,
            body = JDict [(''file_name'', JStr ''doc1.pdf''), (''state'', JStr ''PENDING_OCR''),
                          (''metadata'', JDict []),
                          (''updated_at'', JStr ''2024-05-01T10:00:00''),
                          (''success'', JBool True)]\<rparr>
   \<and> fst (update_state (env_up ''2024-05-01T10:00:00'') empty_table
          (JStr ''doc1.pdf'') (JStr ''COMPLETED'') (JDict [(''pages'', JInt 5)]))
     = Inl (TypeError ''Object of type Decimal is not JSON serializable'')
   \<and> fst (update_state (env_up ''2024-05-01T10:00:09'')
          (snd (update_state (env_up ''2024-05-01T10:00:00'') empty_table
             (JStr ''doc1.pdf'') (JStr ''COMPLETED'') (JDict [(''pages'', JInt 5)])))
          (JStr ''doc1.pdf'') (JStr ''COMPLETED'') (JDict [(''pages'', JInt 5)]))
     = Inl (TypeError ''Object of type Decimal is not JSON serializable'')
   \<and> fst (lambda_handler (env_up ''2024-05-01T10:00:00'') empty_table
          (JDict [(''operation'', JStr ''update''), (''file_name'', JStr ''doc1.pdf''),
                  (''new_state'', JStr ''COMPLETED''),
                  (''metadata'', JDict [(''pages'', JInt 5)])]))
     = \<lparr>statusCode = 500,
        body = JDict [(''error'', JStr ''Object of type Decimal is not JSON serializable'')]\<rparr>"
proof -
  have "fst (lambda_handler (env_up ''2024-05-01T10:00:00'') empty_table
          (JDict [(''operation'', JStr ''update''), (''file_name'', JStr ''doc1.pdf''),
                  (''new_state'', JStr ''COMPLETED''),
                  (''metadata'', JDict [(''pages'', JInt 5)])]))
     = \<lparr>statusCode = 500,
        body = JDict [(''error'', JStr ''Object of type Decimal is not JSON serializable'')]\<rparr>"
    by (simp add: handler_defs run_defs upper_examples)
  then show ?thesis
    by (simp add: update_state_answer env_up_simps)
qed

section \<open>Validation\<close>

text \<open>
  C4, as amended. For every request whose payload is an object without a file_name, and
  whose operation is absent or a string (whatever the string), the handler returns the 400
  response with the error message "file_name is required", and the store is exactly as
  before: no call was made to it.
\<close>

theorem missing_file_name_400:
  assumes "request_body e ev = Inr (JDict b)"
      and "map_of b ''file_name'' = None"
      and "py_get (JDict b) ''operation'' (JStr []) = Inr (JStr op)"
  shows "lambda_handler e st ev = (error_response 400 ''file_name is required'', st)"
  using assms(2,3)
  by (simp add: handler_on_payload [OF assms(1)] dispatch_def except_clause_def)

theorem missing_file_name_400_witness:
  "request_body (env_up ''2024-05-01T10:00:00'')
     (JDict [(''operation'', JStr ''update''), (''new_state'', JStr ''COMPLETED'')])
     = Inr (JDict [(''operation'', JStr ''update''), (''new_state'', JStr ''COMPLETED'')])
   \<and> map_of [(''operation'', JStr ''update''), (''new_state'', JStr ''COMPLETED'')]
        ''file_name'' = None
   \<and> lambda_handler (env_up ''2024-05-01T10:00:00'') empty_table
        (JDict [(''operation'', JStr ''update''), (''new_state'', JStr ''COMPLETED'')])
     = (\<lparr>statusCode = 400, body = JDict [(''error'', JStr ''file_name is required'')]\<rparr>,
        empty_table)"
proof -
  let ?b = "[(''operation'', JStr ''update''), (''new_state'', JStr ''COMPLETED'')]"
  have p: "request_body (env_up ''2024-05-01T10:00:00'') (JDict ?b) = Inr (JDict ?b)"
    by (simp add: request_body_def)
  have f: "map_of ?b ''file_name'' = None"
    by simp
  have o: "py_get (JDict ?b) ''operation'' (JStr []) = Inr (JStr ''update'')"
    by simp
  from missing_file_name_400 [OF p f o, of empty_table] p f show ?thesis
    by (simp add: error_response_def)
qed

text \<open>
  C4, as stated, fails: the request \<open>{"operation": null}\<close> has no file_name, and the
  handler answers 500, because the operation is upper-cased before the file name is looked
  at and \<open>None\<close> has no \<open>upper\<close>. So does the event \<open>{"body": null}\<close>, whose
  payload is \<open>None\<close> and holds no file_name either: \<open>None\<close> has no \<open>get\<close>.
\<close>

theorem missing_file_name_counterexample:
  "request_body (env_up ''2024-05-01T10:00:00'') (JDict [(''operation'', JNull)])
     = Inr (JDict [(''operation'', JNull)])
   \<and> map_of [(''operation'', JNull)] ''file_name'' = None
   \<and> lambda_handler (env_up ''2024-05-01T10:00:00'') empty_table (JDict [(''operation'', JNull)])
     = (\<lparr>statusCode = 500,
         body = JDict [(''error'',
                  JStr (quoted ''NoneType'' @ '' object has no attribute '' @ quoted ''upper''))]\<rparr>,
        empty_table)
   \<and> statusCode (fst (lambda_handler (env_up ''2024-05-01T10:00:00'') empty_table
        (JDict [(''operation'', JNull)]))) \<noteq> 400
   \<and> request_body (env_up ''2024-05-01T10:00:00'') (JDict [(''body'', JNull)]) = Inr JNull
   \<and> lambda_handler (env_up ''2024-05-01T10:00:00'') empty_table (JDict [(''body'', JNull)])
     = (\<lparr>statusCode = 500,
         body = JDict [(''error'',
                  JStr (quoted ''NoneType'' @ '' object has no attribute '' @ quoted ''get''))]\<rparr>,
        empty_table)"
  by (simp add: handler_defs)

text \<open>
  C5, as amended. For every request whose payload is an object with a non-empty file_name
  and whose operation is absent or a string that \<open>upper()\<close> does not turn into "GET" or
  "UPDATE", the handler returns the 400 response whose message is "Invalid operation: ",
  the upper-cased form of the operation supplied (empty when absent), and
  ". Use GET or UPDATE"; the store is exactly as before: no call was made to it.
\<close>

theorem invalid_operation_400:
  assumes "request_body e ev = Inr (JDict b)"
      and "py_get (JDict b) ''operation'' (JStr []) = Inr (JStr op)"
      and "map_of b ''file_name'' = Some fn" and "truthy fn"
      and "str_upper e op \<noteq> ''GET''" and "str_upper e op \<noteq> ''UPDATE''"
  shows "lambda_handler e st ev =
           (error_response 400
              (''Invalid operation: '' @ str_upper e op @ ''. Use GET or UPDATE''), st)
       \<and> sublist (str_upper e op)
           (''Invalid operation: '' @ str_upper e op @ ''. Use GET or UPDATE'')"
proof
  show "lambda_handler e st ev =
          (error_response 400
             (''Invalid operation: '' @ str_upper e op @ ''. Use GET or UPDATE''), st)"
    using assms(2-)
    by (simp add: handler_on_payload [OF assms(1)] dispatch_def except_clause_def)
  show "sublist (str_upper e op)
          (''Invalid operation: '' @ str_upper e op @ ''. Use GET or UPDATE'')"
    by (rule sublist_appendI)
qed

theorem invalid_operation_400_witness:
  "request_body (env_up ''2024-05-01T10:00:00'')
     (JDict [(''operation'', JStr ''delete''), (''file_name'', JStr ''doc1.pdf'')])
     = Inr (JDict [(''operation'', JStr ''delete''), (''file_name'', JStr ''doc1.pdf'')])
   \<and> truthy (JStr ''doc1.pdf'')
   \<and> str_upper (env_up ''2024-05-01T10:00:00'') ''delete'' \<noteq> ''GET''
   \<and> str_upper (env_up ''2024-05-01T10:00:00'') ''delete'' \<noteq> ''UPDATE''
   \<and> lambda_handler (env_up ''2024-05-01T10:00:00'') empty_table
        (JDict [(''operation'', JStr ''delete''), (''file_name'', JStr ''doc1.pdf'')])
     = (\<lparr>statusCode = 400,
         body = JDict [(''error'', JStr ''Invalid operation: DELETE. Use GET or UPDATE'')]\<rparr>,
        empty_table)"
proof -
  let ?b = "[(''operation'', JStr ''delete''), (''file_name'', JStr ''doc1.pdf'')]"
  have p: "request_body (env_up ''2024-05-01T10:00:00'') (JDict ?b) = Inr (JDict ?b)"
    by (simp add: request_body_def)
  have o: "py_get (JDict ?b) ''operation'' (JStr []) = Inr (JStr ''delete'')"
    by simp
  have f: "map_of ?b ''file_name'' = Some (JStr ''doc1.pdf'')"
    by simp
  have t: "truthy (JStr ''doc1.pdf'')"
    by simp
  have g: "str_upper (env_up ''2024-05-01T10:00:00'') ''delete'' \<noteq> ''GET''"
    and u: "str_upper (env_up ''2024-05-01T10:00:00'') ''delete'' \<noteq> ''UPDATE''"
    by (simp_all add: str_upper_examples)
  from invalid_operation_400 [OF p o f t g u, of empty_table] p t g u show ?thesis
    by (simp add: error_response_def str_upper_examples)
qed

text \<open>
  C5, as stated, fails. The request with operation "delete" is answered with
  "Invalid operation: DELETE. Use GET or UPDATE": the message holds the upper-cased form, and
  the value supplied occurs nowhere in it. The request with operation 5, which is not "GET"
  or "UPDATE" in any letter case, is answered 500, because an int has no \<open>upper\<close>. The
  request with operation "delete" and a file_name that is present and empty is answered
  "file_name is required", which does not name the operation.
\<close>

theorem invalid_operation_counterexample:
  "lambda_handler (env_up ''2024-05-01T10:00:00'') empty_table
     (JDict [(''operation'', JStr ''delete''), (''file_name'', JStr ''doc1.pdf'')])
     = (\<lparr>statusCode = 400,
         body = JDict [(''error'', JStr ''Invalid operation: DELETE. Use GET or UPDATE'')]\<rparr>,
        empty_table)
   \<and> \<not> sublist ''delete'' ''Invalid operation: DELETE. Use GET or UPDATE''
   \<and> lambda_handler (env_up ''2024-05-01T10:00:00'') empty_table
        (JDict [(''operation'', JInt 5), (''file_name'', JStr ''doc1.pdf'')])
     = (\<lparr>statusCode = 500,
         body = JDict [(''error'',
                  JStr (quoted ''int'' @ '' object has no attribute '' @ quoted ''upper''))]\<rparr>,
        empty_table)
   \<and> lambda_handler (env_up ''2024-05-01T10:00:00'') empty_table
        (JDict [(''operation'', JStr ''delete''), (''file_name'', JStr [])])
     = (\<lparr>statusCode = 400, body = JDict [(''error'', JStr ''file_name is required'')]\<rparr>,
        empty_table)"
proof -
  have a: "\<not> sublist ''delete'' ''Invalid operation: DELETE. Use GET or UPDATE''"
    by code_simp
  show ?thesis
    using a by (simp add: handler_defs upper_examples)
qed

text \<open>
  C6. For every UPDATE request (the operation is a string that upper-cases to "UPDATE")
  with a file_name present and no new_state in its payload, the handler returns a 400
  response whose body is an error field, and the store is exactly as before: no call was
  made to it. The message is "new_state is required for UPDATE operation" when the file
  name is non-empty, and "file_name is required" otherwise.
\<close>

theorem update_without_new_state_400:
  assumes "request_body e ev = Inr (JDict b)"
      and "map_of b ''operation'' = Some (JStr op)" and "upper op = ''UPDATE''"
      and "map_of b ''file_name'' = Some fn"
      and "map_of b ''new_state'' = None"
  shows "lambda_handler e st ev =
           (error_response 400
              (if truthy fn then ''new_state is required for UPDATE operation''
               else ''file_name is required''), st)"
  using assms(2,4,5) upper_UPDATE_ascii [OF assms(3), of e]
  by (simp add: handler_on_payload [OF assms(1)] dispatch_def except_clause_def)

theorem update_without_new_state_400_witness:
  "request_body (env_up ''2024-05-01T10:00:00'')
     (JDict [(''operation'', JStr ''Update''), (''file_name'', JStr ''doc1.pdf''),
             (''metadata'', JDict [(''pages'', JInt 5)])])
     = Inr (JDict [(''operation'', JStr ''Update''), (''file_name'', JStr ''doc1.pdf''),
                   (''metadata'', JDict [(''pages'', JInt 5)])])
   \<and> upper ''Update'' = ''UPDATE''
   \<and> lambda_handler (env_up ''2024-05-01T10:00:00'') empty_table
        (JDict [(''operation'', JStr ''Update''), (''file_name'', JStr ''doc1.pdf''),
                (''metadata'', JDict [(''pages'', JInt 5)])])
     = (\<lparr>statusCode = 400,
         body = JDict [(''error'', JStr ''new_state is required for UPDATE operation'')]\<rparr>,
        empty_table)"
proof -
  let ?b = "[(''operation'', JStr ''Update''), (''file_name'', JStr ''doc1.pdf''),
             (''metadata'', JDict [(''pages'', JInt 5)])]"
  have p: "request_body (env_up ''2024-05-01T10:00:00'') (JDict ?b) = Inr (JDict ?b)"
    by (simp add: request_body_def)
  have o: "map_of ?b ''operation'' = Some (JStr ''Update'')"
    by simp
  have u: "upper ''Update'' = ''UPDATE''"
    by (rule upper_examples)
  have f: "map_of ?b ''file_name'' = Some (JStr ''doc1.pdf'')"
    by simp
  have n: "map_of ?b ''new_state'' = None"
    by simp
  from update_without_new_state_400 [OF p o u f n, of empty_table] p u show ?thesis
    by (simp add: error_response_def)
qed

text \<open>
  C9, as amended. For every request whose payload is an object with file_name equal to the
  empty string, the handler answers exactly as it answers the same payload without the
  file_name entry, with the same store afterwards; when the operation is absent or a
  string, that answer is the 400 response "file_name is required", and the store is exactly
  as before: no call was made to it.
\<close>

theorem empty_file_name_as_missing:
  assumes "request_body e ev = Inr (JDict b)"
      and "map_of b ''file_name'' = Some (JStr [])"
      and "request_body e ev' = Inr (JDict (without ''file_name'' b))"
  shows "lambda_handler e st ev = lambda_handler e st ev'
       \<and> (\<forall>op. py_get (JDict b) ''operation'' (JStr []) = Inr (JStr op) \<longrightarrow>
             lambda_handler e st ev = (error_response 400 ''file_name is required'', st))"
proof -
  have a: "\<not> truthy (case map_of b ''file_name'' of Some v \<Rightarrow> v | None \<Rightarrow> JNull)"
    using assms(2) by simp
  have b: "\<not> truthy (case map_of (without ''file_name'' b) ''file_name'' of
                        Some v \<Rightarrow> v | None \<Rightarrow> JNull)"
    by (simp add: map_of_without)
  have "dispatch e st (JDict b) = dispatch e st (JDict (without ''file_name'' b))"
    by (simp add: dispatch_falsy_file_name [OF a] dispatch_falsy_file_name [OF b] map_of_without)
  then have one: "lambda_handler e st ev = lambda_handler e st ev'"
    by (simp add: handler_on_payload [OF assms(1)] handler_on_payload [OF assms(3)])
  have two: "\<forall>op. py_get (JDict b) ''operation'' (JStr []) = Inr (JStr op) \<longrightarrow>
             lambda_handler e st ev = (error_response 400 ''file_name is required'', st)"
    by (auto simp: handler_on_payload [OF assms(1)] dispatch_falsy_file_name [OF a]
        except_clause_def)
  from one two show ?thesis ..
qed

theorem empty_file_name_as_missing_witness:
  "request_body (env_up ''2024-05-01T10:00:00'')
     (JDict [(''file_name'', JStr []), (''operation'', JStr ''get'')])
     = Inr (JDict [(''file_name'', JStr []), (''operation'', JStr ''get'')])
   \<and> without ''file_name'' [(''file_name'', JStr []), (''operation'', JStr ''get'')]
       = [(''operation'', JStr ''get'')]
   \<and> lambda_handler (env_up ''2024-05-01T10:00:00'') empty_table
        (JDict [(''file_name'', JStr []), (''operation'', JStr ''get'')])
     = lambda_handler (env_up ''2024-05-01T10:00:00'') empty_table
        (JDict [(''operation'', JStr ''get'')])
   \<and> lambda_handler (env_up ''2024-05-01T10:00:00'') empty_table
        (JDict [(''file_name'', JStr []), (''operation'', JStr ''get'')])
     = (\<lparr>statusCode = 400, body = JDict [(''error'', JStr ''file_name is required'')]\<rparr>,
        empty_table)"
proof -
  let ?e = "env_up ''2024-05-01T10:00:00''"
  let ?b = "[(''file_name'', JStr []), (''operation'', JStr ''get'')]"
  have w: "without ''file_name'' ?b = [(''operation'', JStr ''get'')]"
    by (simp add: without_def)
  have p: "request_body ?e (JDict ?b) = Inr (JDict ?b)"
    by (simp add: request_body_def)
  have f: "map_of ?b ''file_name'' = Some (JStr [])"
    by simp
  have q: "request_body ?e (JDict [(''operation'', JStr ''get'')])
             = Inr (JDict (without ''file_name'' ?b))"
    by (simp add: request_body_def without_def)
  have o: "py_get (JDict ?b) ''operation'' (JStr []) = Inr (JStr ''get'')"
    by simp
  note t = empty_file_name_as_missing [OF p f q, of empty_table]
  have one: "lambda_handler ?e empty_table (JDict ?b)
               = lambda_handler ?e empty_table (JDict [(''operation'', JStr ''get'')])"
    using t by blast
  have two: "lambda_handler ?e empty_table (JDict ?b)
               = (\<lparr>statusCode = 400, body = JDict [(''error'', JStr ''file_name is required'')]\<rparr>,
                  empty_table)"
    using t o unfolding error_response_def by blast
  from p w one two show ?thesis
    by blast
qed

text \<open>
  C9, as stated, fails: the request \<open>{"file_name": "", "operation": 0}\<close> has an empty
  file_name, and the handler answers 500 and not the 400 "file_name is required", because
  the operation is upper-cased before the file name is tested and an int has no \<open>upper\<close>.
\<close>

theorem empty_file_name_counterexample:
  "map_of [(''file_name'', JStr []), (''operation'', JInt 0)] ''file_name'' = Some (JStr [])
   \<and> lambda_handler (env_up ''2024-05-01T10:00:00'') empty_table
        (JDict [(''file_name'', JStr []), (''operation'', JInt 0)])
     = (\<lparr>statusCode = 500,
         body = JDict [(''error'',
                  JStr (quoted ''int'' @ '' object has no attribute '' @ quoted ''upper''))]\<rparr>,
        empty_table)
   \<and> fst (lambda_handler (env_up ''2024-05-01T10:00:00'') empty_table
        (JDict [(''file_name'', JStr []), (''operation'', JInt 0)]))
     \<noteq> \<lparr>statusCode = 400, body = JDict [(''error'', JStr ''file_name is required'')]\<rparr>"
  by (simp add: handler_defs)

section \<open>Payload selection\<close>

text \<open>
  C10. For every event that is an object: if its body field is a string, the string is
  JSON-decoded and the result is the payload (a decoding error ends the request with a 500
  carrying the error's text); if its body field is present and not a string, the field's
  value is the payload as it is; if it has no body field, the event itself is the payload.
  In each case the handler's answer is the validation and dispatch run on that payload.
\<close>

theorem payload_selection:
  "(\<forall>s p. map_of kvs ''body'' = Some (JStr s) \<and> loads e s = Inr p \<longrightarrow>
       request_body e (JDict kvs) = Inr p
     \<and> lambda_handler e st (JDict kvs) = except_clause (dispatch e st p))
 \<and> (\<forall>s m. map_of kvs ''body'' = Some (JStr s) \<and> loads e s = Inl m \<longrightarrow>
       request_body e (JDict kvs) = Inl (JSONDecodeError m)
     \<and> lambda_handler e st (JDict kvs) = (error_response 500 m, st))
 \<and> (\<forall>v. map_of kvs ''body'' = Some v \<and> (\<forall>s. v \<noteq> JStr s) \<longrightarrow>
       request_body e (JDict kvs) = Inr v
     \<and> lambda_handler e st (JDict kvs) = except_clause (dispatch e st v))
 \<and> (map_of kvs ''body'' = None \<longrightarrow>
       request_body e (JDict kvs) = Inr (JDict kvs)
     \<and> lambda_handler e st (JDict kvs) = except_clause (dispatch e st (JDict kvs)))"
proof -
  have one: "request_body e (JDict kvs) = Inr p"
    if "map_of kvs ''body'' = Some (JStr s)" "loads e s = Inr p" for s p
    using that by (simp add: request_body_def)
  have two: "request_body e (JDict kvs) = Inl (JSONDecodeError m)"
    if "map_of kvs ''body'' = Some (JStr s)" "loads e s = Inl m" for s m
    using that by (simp add: request_body_def)
  have three: "request_body e (JDict kvs) = Inr v"
    if "map_of kvs ''body'' = Some v" "\<forall>s. v \<noteq> JStr s" for v
    using that by (cases v) (simp_all add: request_body_def)
  have four: "request_body e (JDict kvs) = Inr (JDict kvs)" if "map_of kvs ''body'' = None"
    using that by (simp add: request_body_def)
  show ?thesis
    using one two three four
    by (auto simp: lambda_handler_def try_block_def except_clause_def)
qed

theorem payload_selection_witness:
  "request_body (env_up ''2024-05-01T10:00:00'') (JDict [(''body'', JStr ''{}'')])
     = Inr (JDict [])
   \<and> request_body (env_up ''2024-05-01T10:00:00'') (JDict [(''body'', JStr ''not json'')])
     = Inl (JSONDecodeError ''Expecting value: line 1 column 1 (char 0)'')
   \<and> request_body (env_up ''2024-05-01T10:00:00'')
       (JDict [(''body'', JDict [(''operation'', JStr ''get'')])])
     = Inr (JDict [(''operation'', JStr ''get'')])
   \<and> request_body (env_up ''2024-05-01T10:00:00'') (JDict [(''body'', JNull)]) = Inr JNull
   \<and> request_body (env_up ''2024-05-01T10:00:00'') (JDict [(''operation'', JStr ''get'')])
     = Inr (JDict [(''operation'', JStr ''get'')])"
proof -
  let ?e = "env_up ''2024-05-01T10:00:00''"
  have l1: "loads ?e ''{}'' = Inr (JDict [])"
    by (simp add: env_up_simps sample_loads_def)
  have l2: "loads ?e ''not json'' = Inl ''Expecting value: line 1 column 1 (char 0)''"
    by (simp add: env_up_simps sample_loads_def)
  have a: "request_body ?e (JDict [(''body'', JStr ''{}'')]) = Inr (JDict [])"
    using payload_selection [of "[(''body'', JStr ''{}'')]" ?e empty_table] l1 by simp
  have b: "request_body ?e (JDict [(''body'', JStr ''not json'')])
             = Inl (JSONDecodeError ''Expecting value: line 1 column 1 (char 0)'')"
    using payload_selection [of "[(''body'', JStr ''not json'')]" ?e empty_table] l2 by simp
  have c: "request_body ?e (JDict [(''body'', JDict [(''operation'', JStr ''get'')])])
             = Inr (JDict [(''operation'', JStr ''get'')])"
    using payload_selection
      [of "[(''body'', JDict [(''operation'', JStr ''get'')])]" ?e empty_table]
    by simp
  have d: "request_body ?e (JDict [(''body'', JNull)]) = Inr JNull"
    using payload_selection [of "[(''body'', JNull)]" ?e empty_table] by simp
  have f: "request_body ?e (JDict [(''operation'', JStr ''get'')])
             = Inr (JDict [(''operation'', JStr ''get'')])"
    using payload_selection [of "[(''operation'', JStr ''get'')]" ?e empty_table] by simp
  from a b c d f show ?thesis
    by blast
qed

section \<open>Failures\<close>

text \<open>
  C7. For every request: if selecting the payload raises (a decoding error, or an event
  that has no \<open>get\<close>), the handler returns the 500 response whose error field is the
  exception's text, and the store is exactly as before; if the store call of the request
  fails, the handler returns the 500 response whose error field is the text of the store's
  exception, and the records are those from before the call. Whatever exception the
  \<open>try\<close> block raises, the answer is the 500 response with that exception's text, and
  the records are those from before unless the exception is the \<open>TypeError\<close> that
  \<open>json.dumps\<close> raises after the store has answered. In every case the request adds at
  most one call to the store's trace, so a failed call is not repeated.
\<close>

theorem failure_gives_500:
  assumes "lambda_handler e st ev = (r, st')"
  shows "(\<forall>x. request_body e ev = Inl x \<longrightarrow> r = error_response 500 (exn_text x) \<and> st' = st)
       \<and> (\<forall>c m. calls st' = calls st @ [c] \<and> fault e c = Some m \<longrightarrow>
              r = error_response 500 m \<and> items st' = items st)
       \<and> (\<forall>x s1. try_block e st ev = (Inl x, s1) \<longrightarrow>
              r = error_response 500 (exn_text x)
            \<and> ((\<forall>m. x \<noteq> TypeError m) \<longrightarrow> items st' = items st))
       \<and> (calls st' = calls st \<or> (\<exists>c. calls st' = calls st @ [c]))"
proof -
  obtain res where tb: "try_block e st ev = (res, st')"
    and r: "(r, st') = except_clause (res, st')"
    using assms unfolding lambda_handler_def except_clause_def
    by (cases "try_block e st ev") (auto split: sum.splits)
  have one: "\<forall>x. request_body e ev = Inl x \<longrightarrow> r = error_response 500 (exn_text x) \<and> st' = st"
    using assms by (auto simp: handler_on_parse_error)
  have two: "\<forall>c m. calls st' = calls st @ [c] \<and> fault e c = Some m \<longrightarrow>
              r = error_response 500 m \<and> items st' = items st"
    using try_block_trace [OF tb] r by (auto simp: except_clause_def)
  have any: "\<forall>x s1. try_block e st ev = (Inl x, s1) \<longrightarrow>
               r = error_response 500 (exn_text x)
             \<and> ((\<forall>m. x \<noteq> TypeError m) \<longrightarrow> items st' = items st)"
    using try_block_trace [OF tb] tb r by (auto simp: except_clause_def split: option.splits)
  have three: "calls st' = calls st \<or> (\<exists>c. calls st' = calls st @ [c])"
    using try_block_trace [OF tb] by auto
  from one two any three show ?thesis by blast
qed

theorem failure_gives_500_witness:
  "request_body (env_up ''2024-05-01T10:00:00'') (JDict [(''body'', JStr ''not json'')])
     = Inl (JSONDecodeError ''Expecting value: line 1 column 1 (char 0)'')
   \<and> lambda_handler (env_up ''2024-05-01T10:00:00'') empty_table
        (JDict [(''body'', JStr ''not json'')])
     = (error_response 500 ''Expecting value: line 1 column 1 (char 0)'', empty_table)
   \<and> fault (env_down ''2024-05-01T10:00:00'' ''ProvisionedThroughputExceededException'')
        (UpdateItem (JStr ''doc1.pdf'') (JStr ''COMPLETED'') (JStr ''2024-05-01T10:00:00'')
           (JDict []))
     = Some ''ProvisionedThroughputExceededException''
   \<and> calls (snd (lambda_handler
        (env_down ''2024-05-01T10:00:00'' ''ProvisionedThroughputExceededException'') empty_table
        (JDict [(''operation'', JStr ''update''), (''file_name'', JStr ''doc1.pdf''),
                (''new_state'', JStr ''COMPLETED'')])))
     = calls empty_table @
         [UpdateItem (JStr ''doc1.pdf'') (JStr ''COMPLETED'') (JStr ''2024-05-01T10:00:00'')
            (JDict [])]
   \<and> fst (lambda_handler
        (env_down ''2024-05-01T10:00:00'' ''ProvisionedThroughputExceededException'') empty_table
        (JDict [(''operation'', JStr ''update''), (''file_name'', JStr ''doc1.pdf''),
                (''new_state'', JStr ''COMPLETED'')]))
     = error_response 500 ''ProvisionedThroughputExceededException''
   \<and> items (snd (lambda_handler
        (env_down ''2024-05-01T10:00:00'' ''ProvisionedThroughputExceededException'') empty_table
        (JDict [(''operation'', JStr ''update''), (''file_name'', JStr ''doc1.pdf''),
                (''new_state'', JStr ''COMPLETED'')])))
     = items empty_table
   \<and> try_block (env_up ''2024-05-01T10:00:00'') empty_table
        (JDict [(''operation'', JNull), (''file_name'', JStr ''doc1.pdf'')])
     = (Inl (no_attribute JNull ''upper''), empty_table)
   \<and> fst (lambda_handler (env_up ''2024-05-01T10:00:00'') empty_table
        (JDict [(''operation'', JNull), (''file_name'', JStr ''doc1.pdf'')]))
     = error_response 500 (exn_text (no_attribute JNull ''upper''))
   \<and> items (snd (lambda_handler (env_up ''2024-05-01T10:00:00'') empty_table
        (JDict [(''operation'', JNull), (''file_name'', JStr ''doc1.pdf'')])))
     = items empty_table"
proof -
  let ?up = "env_up ''2024-05-01T10:00:00''"
  let ?nul = "JDict [(''operation'', JNull), (''file_name'', JStr ''doc1.pdf'')]"
  let ?down = "env_down ''2024-05-01T10:00:00'' ''ProvisionedThroughputExceededException''"
  let ?bad = "JDict [(''body'', JStr ''not json'')]"
  let ?ev = "JDict [(''operation'', JStr ''update''), (''file_name'', JStr ''doc1.pdf''),
                    (''new_state'', JStr ''COMPLETED'')]"
  let ?c = "UpdateItem (JStr ''doc1.pdf'') (JStr ''COMPLETED'') (JStr ''2024-05-01T10:00:00'')
              (JDict [])"
  have p: "request_body ?up ?bad
             = Inl (JSONDecodeError ''Expecting value: line 1 column 1 (char 0)'')"
    by (simp add: request_body_def env_up_simps sample_loads_def)
  have h1: "lambda_handler ?up empty_table ?bad
              = (fst (lambda_handler ?up empty_table ?bad),
                 snd (lambda_handler ?up empty_table ?bad))"
    by simp
  have a: "lambda_handler ?up empty_table ?bad
             = (error_response 500 ''Expecting value: line 1 column 1 (char 0)'', empty_table)"
    using failure_gives_500 [OF h1] p by (simp add: prod_eq_iff)
  have h2: "lambda_handler ?down empty_table ?ev
              = (fst (lambda_handler ?down empty_table ?ev),
                 snd (lambda_handler ?down empty_table ?ev))"
    by simp
  have f: "fault ?down ?c = Some ''ProvisionedThroughputExceededException''"
    by (simp add: env_down_simps)
  have t: "calls (snd (lambda_handler ?down empty_table ?ev)) = calls empty_table @ [?c]"
    by (simp add: handler_defs run_defs upper_examples)
  have b: "fst (lambda_handler ?down empty_table ?ev)
             = error_response 500 ''ProvisionedThroughputExceededException''
           \<and> items (snd (lambda_handler ?down empty_table ?ev)) = items empty_table"
    using failure_gives_500 [OF h2] t f by blast
  have tb: "try_block ?up empty_table ?nul = (Inl (no_attribute JNull ''upper''), empty_table)"
    by (simp add: try_block_def request_body_def dispatch_def)
  have nt: "\<forall>m. no_attribute JNull ''upper'' \<noteq> TypeError m"
    by (simp add: no_attribute_def)
  have h3: "lambda_handler ?up empty_table ?nul
              = (fst (lambda_handler ?up empty_table ?nul),
                 snd (lambda_handler ?up empty_table ?nul))"
    by simp
  have c: "fst (lambda_handler ?up empty_table ?nul)
             = error_response 500 (exn_text (no_attribute JNull ''upper''))
           \<and> items (snd (lambda_handler ?up empty_table ?nul)) = items empty_table"
    using failure_gives_500 [OF h3] tb nt by blast
  from p a f t b tb c show ?thesis
    by blast
qed

end
